theory Spec2Isabelle
  imports Complex_Main "HOL-Library.Multiset"
begin

section \<open>Clustered users on the map: a model of the map helpers\<close>

text \<open>
  The module keeps a MapLibre map's clustered user source, its three layers and its click
  handlers in step with a list of user ids. The functions modelled are \<open>filterData\<close>,
  \<open>addPinImages\<close>, \<open>zoomCluster\<close>, \<open>addClusteredUsersToMap\<close> and
  \<open>reRenderUsersOnMap\<close>. The map object is mutable in the source; here every function
  takes the map's state and returns the new one. The module-level \<open>sources\<close> object is
  mutable too, so the functions that read or write it take it as an argument and
  \<open>reRenderUsersOnMap\<close> returns it updated.
\<close>

subsection \<open>JavaScript values and truthiness\<close>

text \<open>
  Feature properties hold JSON values, and an absent property reads as \<open>undefined\<close>.
  Numbers that occur as property values here (ids, cluster ids, point counts) are integers.
\<close>

datatype jsval = JUndefined | JNull | JBool bool | JNum int | JStr string

fun truthy :: "jsval \<Rightarrow> bool" where
  "truthy JUndefined = False"
| "truthy JNull = False"
| "truthy (JBool b) = b"
| "truthy (JNum n) = (n \<noteq> 0)"
| "truthy (JStr s) = (s \<noteq> [])"

datatype error = Error string | TypeError string

subsection \<open>Search results\<close>

text \<open>
  \<open>User.AsObject\<close>, one entry of \<open>resultsList\<close>, \<open>UserSearchRes.AsObject\<close> and
  \<open>InfiniteData\<close>, each with the fields \<open>filterData\<close> reads. A result whose user is
  missing has \<open>user = None\<close>.
\<close>

record user_obj =
  userId :: int

record search_result =
  user :: "user_obj option"

record user_search_res =
  resultsList :: "search_result list"

record infinite_data =
  pages :: "user_search_res list"

definition flatMap :: "('a \<Rightarrow> 'b list) \<Rightarrow> 'a list \<Rightarrow> 'b list" where
  "flatMap f xs = concat (map f xs)"

text \<open>\<open>.filter((user): user is User.AsObject => !!user)\<close>: an object is truthy, \<open>undefined\<close> is not.\<close>

fun keep_users :: "user_obj option list \<Rightarrow> user_obj list" where
  "keep_users [] = []"
| "keep_users (None # us) = keep_users us"
| "keep_users (Some u # us) = u # keep_users us"

definition filterData :: "infinite_data \<Rightarrow> int list" where
  "filterData d =
     map (\<lambda>u. userId u)
       (keep_users
         (map (\<lambda>result. user result)
           (flatMap (\<lambda>page. resultsList page) (pages d))))"

text \<open>
  The extraction as the specification words it: page by page, result by result, a result
  without a user is skipped and every other one gives its user id.
\<close>

fun ids_of_results :: "search_result list \<Rightarrow> int list" where
  "ids_of_results [] = []"
| "ids_of_results (r # rs) =
     (case user r of
        None \<Rightarrow> ids_of_results rs
      | Some u \<Rightarrow> userId u # ids_of_results rs)"

fun extractIds :: "user_search_res list \<Rightarrow> int list" where
  "extractIds [] = []"
| "extractIds (p # ps) = ids_of_results (resultsList p) @ extractIds ps"

definition result_of :: "int option \<Rightarrow> search_result" where
  "result_of i = \<lparr>user = map_option (\<lambda>n. \<lparr>userId = n\<rparr>) i\<rparr>"

definition example_pages :: infinite_data where
  "example_pages =
     \<lparr>pages = [\<lparr>resultsList = [result_of (Some 7), result_of None, result_of (Some 3)]\<rparr>,
               \<lparr>resultsList = [result_of (Some 3)]\<rparr>]\<rparr>"

subsection \<open>Style expressions, the source and the layers\<close>

text \<open>
  The style expressions the module writes, as a syntax tree: \<open>["has", k]\<close>,
  \<open>["!", e]\<close>, \<open>["get", k]\<close>, \<open>["literal", ids]\<close> and \<open>["in", e1, e2]\<close>.
\<close>

datatype expr =
    Has string
  | Neg expr
  | Get string
  | Literal "int list"
  | In expr expr

text \<open>
  The reading of a filter on a feature's properties. For the \<open>in\<close> test it is the one
  the source's comment gives: ``basically it's like \<open>ids.contains(clusteredUser.id)\<close>''.
\<close>

fun filter_holds :: "expr \<Rightarrow> (string \<times> jsval) list \<Rightarrow> bool" where
  "filter_holds (Has k) ps = (map_of ps k \<noteq> None)"
| "filter_holds (Neg e) ps = (\<not> filter_holds e ps)"
| "filter_holds (In (Get k) (Literal ids)) ps =
     (case map_of ps k of Some (JNum i) \<Rightarrow> i \<in> set ids | _ \<Rightarrow> False)"
| "filter_holds _ ps = False"

text \<open>A source without a filter keeps every feature.\<close>

fun source_keeps :: "expr option \<Rightarrow> (string \<times> jsval) list \<Rightarrow> bool" where
  "source_keeps None ps = True"
| "source_keeps (Some e) ps = filter_holds e ps"

text \<open>
  The entry \<open>sources["clustered-users"]\<close>. The fields \<open>source_cluster\<close> and \<open>source_type\<close> are its
  \<open>cluster\<close> and \<open>type\<close>; \<open>source_filter\<close> is the optional \<open>filter\<close> key that
  \<open>reRenderUsersOnMap\<close> sets and deletes. \<open>URL\<close> is read from the
  environment and is a parameter.
\<close>

record source_config =
  source_cluster :: bool
  clusterMaxZoom :: nat
  clusterRadius :: nat
  data :: string
  promoteId :: string
  source_type :: string
  source_filter :: "expr option"

definition sources_clustered_users :: "string \<Rightarrow> source_config" where
  "sources_clustered_users URL =
     \<lparr>source_cluster = True, clusterMaxZoom = 14, clusterRadius = 50,
      data = URL @ ''/geojson/users'', promoteId = ''id'', source_type = ''geojson'',
      source_filter = None\<rparr>"

text \<open>
  The three entries of \<open>layers\<close>. Their \<open>paint\<close> and \<open>layout\<close> take colours from the
  theme and are left out; identifier, source, type and filter are kept.
\<close>

record layer =
  layer_filter :: expr
  layer_id :: string
  layer_source :: string
  layer_type :: string

definition clusterCountLayer :: layer where
  "clusterCountLayer =
     \<lparr>layer_filter = Has ''point_count'', layer_id = ''clusters-count'',
      layer_source = ''clustered-users'', layer_type = ''symbol''\<rparr>"

definition clusterLayer :: layer where
  "clusterLayer =
     \<lparr>layer_filter = Has ''point_count'', layer_id = ''clusters'',
      layer_source = ''clustered-users'', layer_type = ''circle''\<rparr>"

definition unclusteredPointLayer :: layer where
  "unclusteredPointLayer =
     \<lparr>layer_filter = Neg (Has ''point_count''), layer_id = ''unclustered-points'',
      layer_source = ''clustered-users'', layer_type = ''symbol''\<rparr>"

subsection \<open>The map\<close>

text \<open>
  The MapLibre map is a library object. The model keeps what the module reads back or
  changes through it: the sources by name, the layers, the registered listeners, the
  registered images, and the trace of every call made on the map, in order. A listener is
  \<open>zoomCluster\<close> or a callback of the caller's, told apart by identity. \<open>on\<close> adds a
  listener at the end, \<open>off\<close> takes one matching listener away. Requests whose answer
  arrives later (\<open>loadImage\<close>, \<open>getClusterExpansionZoom\<close>) are recorded in the trace;
  their completion callbacks are functions of their own, applied to the state the map has
  when the answer arrives.

  The map's style is loaded. The library refuses some calls, and the model refuses them too:
  \<open>addSource\<close> throws when there is a source of that name already, \<open>removeSource\<close> throws
  when there is none, and leaves the source where it is (reporting an error event, without
  throwing) while a layer still uses it; \<open>addLayer\<close> with the identifier of an existing
  layer and \<open>removeLayer\<close> of a missing layer report an error event and change nothing.
  A refused call is in the trace like every other. \<open>flyTo\<close> is given an object that
  always has the keys \<open>center\<close> and \<open>zoom\<close>; a \<open>zoom\<close> of \<open>None\<close> is the value
  \<open>undefined\<close>. The trace records the call, not what the camera then does.
\<close>

datatype handler = ZoomCluster | UserClicked nat

type_synonym lnglat = "real \<times> real"

type_synonym image = nat

datatype call =
    AddSource string source_config
  | RemoveSource string
  | AddLayer layer
  | RemoveLayer string
  | On string string handler
  | Off string string handler
  | LoadImage string
  | AddImage string image bool
  | GetClusterExpansionZoom jsval
  | FlyTo lnglat "real option"

record map_state =
  style_sources :: "string \<rightharpoonup> source_config"
  style_layers :: "layer list"
  listeners :: "(string \<times> string \<times> handler) list"
  images :: "string list"
  calls :: "call list"

definition new_map :: map_state where
  "new_map = \<lparr>style_sources = Map.empty, style_layers = [], listeners = [], images = [],
     calls = []\<rparr>"

text \<open>
  A function that can throw gives the state it has reached together with what it threw: a
  JavaScript exception undoes nothing.
\<close>

datatype outcome = Returned map_state | Thrown error map_state

fun state_of :: "outcome \<Rightarrow> map_state" where
  "state_of (Returned m) = m"
| "state_of (Thrown e m) = m"

fun thrown :: "outcome \<Rightarrow> error option" where
  "thrown (Returned m) = None"
| "thrown (Thrown e m) = Some e"

definition addSource :: "string \<Rightarrow> source_config \<Rightarrow> map_state \<Rightarrow> outcome" where
  "addSource name cfg m =
     (if style_sources m name \<noteq> None
      then Thrown (Error ''There is already a source with this ID'')
             (m\<lparr>calls := calls m @ [AddSource name cfg]\<rparr>)
      else Returned
             (m\<lparr>style_sources := (style_sources m)(name \<mapsto> cfg),
                calls := calls m @ [AddSource name cfg]\<rparr>))"

definition removeSource :: "string \<Rightarrow> map_state \<Rightarrow> outcome" where
  "removeSource name m =
     (if style_sources m name = None
      then Thrown (Error ''There is no source with this ID'')
             (m\<lparr>calls := calls m @ [RemoveSource name]\<rparr>)
      else if list_ex (\<lambda>l. layer_source l = name) (style_layers m)
      then Returned (m\<lparr>calls := calls m @ [RemoveSource name]\<rparr>)
      else Returned
             (m\<lparr>style_sources := (style_sources m)(name := None),
                calls := calls m @ [RemoveSource name]\<rparr>))"

definition getSource :: "map_state \<Rightarrow> string \<Rightarrow> source_config option" where
  "getSource m name = style_sources m name"

definition addLayer :: "layer \<Rightarrow> map_state \<Rightarrow> map_state" where
  "addLayer l m =
     (if list_ex (\<lambda>k. layer_id k = layer_id l) (style_layers m)
      then m\<lparr>calls := calls m @ [AddLayer l]\<rparr>
      else m\<lparr>style_layers := style_layers m @ [l], calls := calls m @ [AddLayer l]\<rparr>)"

definition removeLayer :: "string \<Rightarrow> map_state \<Rightarrow> map_state" where
  "removeLayer lid m =
     m\<lparr>style_layers := filter (\<lambda>l. layer_id l \<noteq> lid) (style_layers m),
       calls := calls m @ [RemoveLayer lid]\<rparr>"

definition on :: "string \<Rightarrow> string \<Rightarrow> handler \<Rightarrow> map_state \<Rightarrow> map_state" where
  "on ev lid h m =
     m\<lparr>listeners := listeners m @ [(ev, lid, h)], calls := calls m @ [On ev lid h]\<rparr>"

definition off :: "string \<Rightarrow> string \<Rightarrow> handler \<Rightarrow> map_state \<Rightarrow> map_state" where
  "off ev lid h m =
     m\<lparr>listeners := remove1 (ev, lid, h) (listeners m), calls := calls m @ [Off ev lid h]\<rparr>"

definition hasImage :: "map_state \<Rightarrow> string \<Rightarrow> bool" where
  "hasImage m name = (name \<in> set (images m))"

definition loadImage :: "string \<Rightarrow> map_state \<Rightarrow> map_state" where
  "loadImage url m = m\<lparr>calls := calls m @ [LoadImage url]\<rparr>"

definition addImage :: "string \<Rightarrow> image \<Rightarrow> bool \<Rightarrow> map_state \<Rightarrow> map_state" where
  "addImage name img sdf m =
     m\<lparr>images := images m @ [name], calls := calls m @ [AddImage name img sdf]\<rparr>"

definition getClusterExpansionZoom :: "jsval \<Rightarrow> map_state \<Rightarrow> map_state" where
  "getClusterExpansionZoom cid m = m\<lparr>calls := calls m @ [GetClusterExpansionZoom cid]\<rparr>"

definition flyTo :: "lnglat \<Rightarrow> real option \<Rightarrow> map_state \<Rightarrow> map_state" where
  "flyTo center zoom m = m\<lparr>calls := calls m @ [FlyTo center zoom]\<rparr>"

subsection \<open>addPinImages\<close>

definition userPin_src :: string where
  "userPin_src = ''./resources/userPin.png''"

definition addPinImages :: "map_state \<Rightarrow> map_state" where
  "addPinImages m =
     (if hasImage m ''user-pin'' then m else loadImage userPin_src m)"

text \<open>
  The callback given to \<open>loadImage\<close>, with its arguments \<open>error\<close> (absent on success)
  and \<open>image\<close>.
\<close>

definition addPinImages_loaded :: "error option \<Rightarrow> image \<Rightarrow> map_state \<Rightarrow> outcome" where
  "addPinImages_loaded err img m =
     (case err of
        Some e \<Rightarrow> Thrown e m
      | None \<Rightarrow>
          if hasImage m ''user-pin'' then Returned m
          else Returned (addImage ''user-pin'' img True m))"

text \<open>
  The event loop delivering load answers one after the other. An exception thrown by one
  callback ends that callback only.
\<close>

fun deliver_loads :: "(error option \<times> image) list \<Rightarrow> map_state \<Rightarrow> map_state" where
  "deliver_loads [] m = m"
| "deliver_loads ((err, img) # rs) m = deliver_loads rs (state_of (addPinImages_loaded err img m))"

definition registrations :: "call list \<Rightarrow> call list" where
  "registrations cs = filter (\<lambda>c. case c of AddImage n i s \<Rightarrow> n = ''user-pin'' | _ \<Rightarrow> False) cs"

subsection \<open>zoomCluster\<close>

record feature =
  properties :: "(string \<times> jsval) list option"
  geometry :: lnglat

record click_event =
  features :: "feature list option"

text \<open>\<open>ev.features?.[0]\<close>\<close>

definition first_feature :: "click_event \<Rightarrow> feature option" where
  "first_feature ev =
     (case features ev of
        None \<Rightarrow> None
      | Some [] \<Rightarrow> None
      | Some (f # fs) \<Rightarrow> Some f)"

text \<open>\<open>cluster.properties?.cluster_id\<close>\<close>

definition cluster_id_of :: "feature \<Rightarrow> jsval" where
  "cluster_id_of f =
     (case properties f of
        None \<Rightarrow> JUndefined
      | Some ps \<Rightarrow> (case map_of ps ''cluster_id'' of None \<Rightarrow> JUndefined | Some v \<Rightarrow> v))"

text \<open>
  The map of the event is the map the handler is registered on. Calling a method on the
  result of \<open>getSource\<close> throws a \<open>TypeError\<close> when there is no such source.
\<close>

definition zoomCluster :: "click_event \<Rightarrow> map_state \<Rightarrow> outcome" where
  "zoomCluster ev m =
     (case first_feature ev of
        None \<Rightarrow> Returned m
      | Some cluster \<Rightarrow>
          if \<not> truthy (cluster_id_of cluster) then Returned m
          else (case getSource m ''clustered-users'' of
                  None \<Rightarrow> Thrown (TypeError ''getClusterExpansionZoom of undefined'') m
                | Some src \<Rightarrow> Returned (getClusterExpansionZoom (cluster_id_of cluster) m)))"

text \<open>
  The callback given to \<open>getClusterExpansionZoom\<close>, for the clicked \<open>cluster\<close>, with its
  arguments \<open>_error\<close> and \<open>zoom\<close> (\<open>undefined\<close> when the query gives none). Its body is
  the one call of \<open>flyTo\<close>; the argument \<open>_error\<close> is not read.
\<close>

definition zoomCluster_answered :: "feature \<Rightarrow> error option \<Rightarrow> real option \<Rightarrow> map_state \<Rightarrow> map_state" where
  "zoomCluster_answered cluster err zoom m = flyTo (geometry cluster) zoom m"

definition camera_moves :: "call list \<Rightarrow> call list" where
  "camera_moves cs = filter (\<lambda>c. case c of FlyTo c z \<Rightarrow> True | _ \<Rightarrow> False) cs"

definition zoom_queries :: "call list \<Rightarrow> call list" where
  "zoom_queries cs = filter (\<lambda>c. case c of GetClusterExpansionZoom i \<Rightarrow> True | _ \<Rightarrow> False) cs"

subsection \<open>addClusteredUsersToMap and reRenderUsersOnMap\<close>

text \<open>
  \<open>addClusteredUsersToMap\<close> in its two parts: adding the source, the icon and the layers,
  then registering the listeners. When \<open>addSource\<close> throws, nothing after it runs.
  \<open>userClickedCallback\<close> is optional; a function is truthy.
\<close>

definition install :: "source_config \<Rightarrow> map_state \<Rightarrow> outcome" where
  "install cfg m =
     (case addSource ''clustered-users'' cfg m of
        Thrown e m' \<Rightarrow> Thrown e m'
      | Returned m1 \<Rightarrow>
          Returned
            (addLayer unclusteredPointLayer
              (addLayer clusterCountLayer
                (addLayer clusterLayer
                  (addPinImages m1)))))"

definition bind :: "nat option \<Rightarrow> map_state \<Rightarrow> map_state" where
  "bind userClickedCallback m =
     on ''click'' (layer_id clusterLayer) ZoomCluster
       (case userClickedCallback of
          Some cb \<Rightarrow> on ''click'' (layer_id unclusteredPointLayer) (UserClicked cb) m
        | None \<Rightarrow> m)"

definition addClusteredUsersToMap :: "source_config \<Rightarrow> map_state \<Rightarrow> nat option \<Rightarrow> outcome" where
  "addClusteredUsersToMap cfg m userClickedCallback =
     (case install cfg m of
        Thrown e m' \<Rightarrow> Thrown e m'
      | Returned m1 \<Rightarrow> Returned (bind userClickedCallback m1))"

text \<open>
  \<open>reRenderUsersOnMap\<close> in its parts: taking the listeners off, removing the layers and
  the source, writing the filter into the shared source entry, and adding everything
  again. When \<open>removeSource\<close> throws, the shared entry is not written and nothing is
  added. An array is truthy, the empty one too; \<open>null\<close> is not.
\<close>

definition unbind :: "nat option \<Rightarrow> map_state \<Rightarrow> map_state" where
  "unbind userClickedCallback m =
     (case userClickedCallback of
        Some cb \<Rightarrow>
          off ''click'' (layer_id clusterLayer) ZoomCluster
            (off ''click'' (layer_id unclusteredPointLayer) (UserClicked cb) m)
      | None \<Rightarrow> m)"

definition uninstall :: "map_state \<Rightarrow> outcome" where
  "uninstall m =
     removeSource ''clustered-users''
       (removeLayer (layer_id unclusteredPointLayer)
         (removeLayer (layer_id clusterCountLayer)
           (removeLayer (layer_id clusterLayer) m)))"

definition set_filter :: "int list option \<Rightarrow> source_config \<Rightarrow> source_config" where
  "set_filter ids cfg =
     (case ids of
        Some l \<Rightarrow> cfg\<lparr>source_filter := Some (In (Get ''id'') (Literal l))\<rparr>
      | None \<Rightarrow> cfg\<lparr>source_filter := None\<rparr>)"

definition reRenderUsersOnMap ::
  "source_config \<Rightarrow> map_state \<Rightarrow> int list option \<Rightarrow> nat option \<Rightarrow> source_config \<times> outcome" where
  "reRenderUsersOnMap cfg m ids userClickedCallback =
     (case uninstall (unbind userClickedCallback m) of
        Thrown e m' \<Rightarrow> (cfg, Thrown e m')
      | Returned m2 \<Rightarrow>
          (set_filter ids cfg,
           addClusteredUsersToMap (set_filter ids cfg) m2 userClickedCallback))"

text \<open>
  Whether the source installed on the map keeps a feature with the properties \<open>ps\<close>; a map
  without the source shows none.
\<close>

definition installed_keeps :: "map_state \<Rightarrow> (string \<times> jsval) list \<Rightarrow> bool" where
  "installed_keeps m ps =
     (case getSource m ''clustered-users'' of
        None \<Rightarrow> False
      | Some c \<Rightarrow> source_keeps (source_filter c) ps)"

definition removals :: "call list \<Rightarrow> call list" where
  "removals cs =
     filter (\<lambda>c. case c of RemoveLayer l \<Rightarrow> True | RemoveSource s \<Rightarrow> True | _ \<Rightarrow> False) cs"

definition trace_since :: "map_state \<Rightarrow> map_state \<Rightarrow> call list" where
  "trace_since m m' = drop (length (calls m)) (calls m')"

text \<open>A source entry, a map with everything installed, and a clicked cluster, for the examples.\<close>

definition example_cfg :: source_config where
  "example_cfg = sources_clustered_users ''https://api.example.org''"

definition example_map :: map_state where
  "example_map = state_of (addClusteredUsersToMap example_cfg new_map (Some 1))"

definition example_cluster :: feature where
  "example_cluster =
     \<lparr>properties = Some [(''cluster_id'', JNum 5), (''point_count'', JNum 12)],
      geometry = (10, 50)\<rparr>"

section \<open>Properties\<close>

subsection \<open>The result extractor\<close>

lemma keep_users_map_user: "map userId (keep_users (map user rs)) = ids_of_results rs"
  by (induction rs) (auto split: option.splits)

lemma keep_users_append: "keep_users (xs @ ys) = keep_users xs @ keep_users ys"
  by (induction xs rule: keep_users.induct) auto

lemma filterData_pages:
  "map userId (keep_users (map user (concat (map resultsList ps)))) = extractIds ps"
  by (induction ps) (auto simp: keep_users_append keep_users_map_user)

text \<open>
  C6. For every paginated result, \<open>filterData\<close> returns the user ids of all pages'
  results, in page order and then result order, without the results that have no user;
  order and duplicates are kept. Pages \<open>[7, no user, 3]\<close> and \<open>[3]\<close> give \<open>[7, 3, 3]\<close>.
\<close>

theorem filterData_extracts:
  "filterData d = extractIds (pages d) \<and> filterData example_pages = [7, 3, 3]"
proof -
  have "filterData d = extractIds (pages d)"
    unfolding filterData_def flatMap_def by (rule filterData_pages)
  moreover have "filterData example_pages = [7, 3, 3]"
    by (simp add: filterData_def flatMap_def example_pages_def result_of_def)
  ultimately show ?thesis by simp
qed

subsection \<open>The icon\<close>

lemma addPinImages_funpow:
  "\<not> hasImage m ''user-pin'' \<Longrightarrow>
   (addPinImages ^^ n) m = m\<lparr>calls := calls m @ replicate n (LoadImage userPin_src)\<rparr>"
proof (induction n)
  case 0
  then show ?case by simp
next
  case (Suc n)
  then show ?case
    by (simp add: addPinImages_def hasImage_def loadImage_def replicate_append_same)
qed

lemma deliver_loads_registered:
  "hasImage m ''user-pin'' \<Longrightarrow> deliver_loads rs m = m"
  by (induction rs arbitrary: m) (auto simp: addPinImages_loaded_def split: option.splits)

lemma hasImage_addImage: "hasImage (addImage name img sdf m) name"
  by (simp add: hasImage_def addImage_def)

lemma deliver_loads_unregistered:
  "\<not> hasImage m ''user-pin'' \<Longrightarrow> \<exists>r\<in>set rs. fst r = None \<Longrightarrow>
   \<exists>img. deliver_loads rs m = addImage ''user-pin'' img True m"
proof (induction rs arbitrary: m)
  case Nil
  then show ?case by simp
next
  case (Cons r rs)
  obtain err img where r: "r = (err, img)" by (cases r)
  show ?case
  proof (cases err)
    case None
    have "deliver_loads (r # rs) m = deliver_loads rs (addImage ''user-pin'' img True m)"
      using Cons.prems(1) by (simp add: r None addPinImages_loaded_def)
    also have "\<dots> = addImage ''user-pin'' img True m"
      by (rule deliver_loads_registered) (rule hasImage_addImage)
    finally show ?thesis by blast
  next
    case (Some e)
    have step: "deliver_loads (r # rs) m = deliver_loads rs m"
      by (simp add: r Some addPinImages_loaded_def)
    from Cons.prems(2) have "\<exists>r\<in>set rs. fst r = None"
      by (auto simp: r Some)
    from Cons.IH [OF Cons.prems(1) this] show ?thesis
      by (simp add: step)
  qed
qed

text \<open>When every load fails, nothing is registered.\<close>

lemma deliver_loads_all_failed:
  "\<forall>r\<in>set rs. fst r \<noteq> None \<Longrightarrow> deliver_loads rs m = m"
  by (induction rs arbitrary: m) (auto simp: addPinImages_loaded_def split: option.splits)

text \<open>
  C5. \<open>addPinImages\<close> is called \<open>n\<close> times on a map without the icon, before any load
  answers; then the \<open>n\<close> answers arrive, in any order and at least one of them with an
  image. Exactly one icon is registered: the callback looks again whether the icon is there,
  so exactly one \<open>addImage\<close> call is made. Every call of \<open>addPinImages\<close> had started a
  load of its own.
\<close>

theorem addPinImages_registers_once:
  assumes "\<not> hasImage m ''user-pin''" and "length rs = n" and "\<exists>r\<in>set rs. fst r = None"
  shows "count_list (images (deliver_loads rs ((addPinImages ^^ n) m))) ''user-pin'' = 1 \<and>
         length (registrations (trace_since m (deliver_loads rs ((addPinImages ^^ n) m)))) = 1 \<and>
         trace_since m ((addPinImages ^^ n) m) = replicate n (LoadImage userPin_src)"
proof -
  let ?m1 = "(addPinImages ^^ n) m"
  have m1: "?m1 = m\<lparr>calls := calls m @ replicate n (LoadImage userPin_src)\<rparr>"
    using assms(1) by (rule addPinImages_funpow)
  have no: "\<not> hasImage ?m1 ''user-pin''"
    using assms(1) by (simp add: m1 hasImage_def)
  obtain img where "deliver_loads rs ?m1 = addImage ''user-pin'' img True ?m1"
    using deliver_loads_unregistered [OF no assms(3)] by blast
  then have m2: "deliver_loads rs ?m1 =
      m\<lparr>images := images m @ [''user-pin''],
        calls := calls m @ replicate n (LoadImage userPin_src) @ [AddImage ''user-pin'' img True]\<rparr>"
    by (simp add: m1 addImage_def)
  have absent: "count_list (images m) ''user-pin'' = 0"
    using assms(1) by (simp add: hasImage_def count_list_0_iff)
  have "count_list (images (deliver_loads rs ?m1)) ''user-pin'' = 1"
    by (simp add: m2 absent)
  moreover have "length (registrations (trace_since m (deliver_loads rs ?m1))) = 1"
    by (simp add: m2 trace_since_def registrations_def)
  moreover have "trace_since m ?m1 = replicate n (LoadImage userPin_src)"
    by (simp add: m1 trace_since_def)
  ultimately show ?thesis by simp
qed

text \<open>
  Three calls, then three answers of which the second is a failure.
\<close>

theorem addPinImages_registers_once_witness:
  "\<not> hasImage new_map ''user-pin'' \<and>
   count_list (images (deliver_loads [(None, 1), (Some (Error ''network''), 2), (None, 3)]
     ((addPinImages ^^ 3) new_map))) ''user-pin'' = 1 \<and>
   length (registrations (trace_since new_map
     (deliver_loads [(None, 1), (Some (Error ''network''), 2), (None, 3)]
       ((addPinImages ^^ 3) new_map)))) = 1"
proof -
  have h: "\<not> hasImage new_map ''user-pin''"
    by (simp add: hasImage_def new_map_def)
  show ?thesis
    using h addPinImages_registers_once [OF h, of "[(None, 1), (Some (Error ''network''), 2), (None, 3)]" 3]
    by simp
qed

text \<open>
  C8. When the image load answers with an error, the callback throws that error, and no icon
  is registered: the images and the \<open>addImage\<close> calls are what they were.
\<close>

theorem addPinImages_loaded_error:
  "addPinImages_loaded (Some e) img m = Thrown e m \<and>
   thrown (addPinImages_loaded (Some e) img m) = Some e \<and>
   images (state_of (addPinImages_loaded (Some e) img m)) = images m \<and>
   registrations (calls (state_of (addPinImages_loaded (Some e) img m))) = registrations (calls m)"
  by (simp add: addPinImages_loaded_def)

subsection \<open>Clicks on clusters\<close>

text \<open>
  C7. A click without features, with an empty feature list, or whose first feature has no
  \<open>cluster_id\<close> property (or no properties) leaves the map as it is: \<open>zoomCluster\<close> asks
  for no expansion zoom and moves no camera.
\<close>

theorem zoomCluster_without_cluster_id:
  assumes "features ev = None \<or> features ev = Some [] \<or>
           (\<exists>f fs. features ev = Some (f # fs) \<and>
              (properties f = None \<or>
               (\<exists>ps. properties f = Some ps \<and> map_of ps ''cluster_id'' = None)))"
  shows "zoomCluster ev m = Returned m \<and>
         zoom_queries (calls (state_of (zoomCluster ev m))) = zoom_queries (calls m) \<and>
         camera_moves (calls (state_of (zoomCluster ev m))) = camera_moves (calls m)"
proof -
  have "zoomCluster ev m = Returned m"
    using assms
    by (auto simp: zoomCluster_def first_feature_def cluster_id_of_def)
  then show ?thesis by simp
qed

text \<open>
  An empty feature list, no feature list, and a user pin (which has an \<open>id\<close> and no
  \<open>cluster_id\<close>).
\<close>

theorem zoomCluster_without_cluster_id_witness:
  "zoomCluster \<lparr>features = Some []\<rparr> new_map = Returned new_map \<and>
   zoomCluster \<lparr>features = None\<rparr> new_map = Returned new_map \<and>
   zoomCluster
     \<lparr>features = Some [\<lparr>properties = Some [(''id'', JNum 7)], geometry = (10, 50)\<rparr>]\<rparr>
     new_map = Returned new_map"
  using zoomCluster_without_cluster_id [of "\<lparr>features = Some []\<rparr>" new_map]
    zoomCluster_without_cluster_id [of "\<lparr>features = None\<rparr>" new_map]
    zoomCluster_without_cluster_id
      [of "\<lparr>features = Some [\<lparr>properties = Some [(''id'', JNum 7)], geometry = (10, 50)\<rparr>]\<rparr>"
          new_map]
  by simp

lemma map_of_without_key: "map_of (filter (\<lambda>p. fst p \<noteq> k) ps) k = None"
  by (auto simp: map_of_eq_None_iff)

text \<open>
  C10. A click whose first feature has a \<open>cluster_id\<close> with a falsy value, such as the
  number 0 or the empty string, is handled as the same click with the property taken away:
  \<open>zoomCluster\<close> tests the value's truthiness, asks for no expansion zoom and moves no
  camera.
\<close>

theorem zoomCluster_falsy_cluster_id:
  assumes "features ev = Some (f # fs)" and "properties f = Some ps"
    and "map_of ps ''cluster_id'' = Some v" and "\<not> truthy v"
  shows "zoomCluster ev m = Returned m \<and>
         zoomCluster ev m =
           zoomCluster
             (ev\<lparr>features :=
                Some (f\<lparr>properties := Some (filter (\<lambda>p. fst p \<noteq> ''cluster_id'') ps)\<rparr> # fs)\<rparr>) m \<and>
         \<not> truthy (JNum 0) \<and> \<not> truthy (JStr '''')"
proof -
  have a: "zoomCluster ev m = Returned m"
    using assms by (simp add: zoomCluster_def first_feature_def cluster_id_of_def)
  have b: "zoomCluster
             (ev\<lparr>features :=
                Some (f\<lparr>properties := Some (filter (\<lambda>p. fst p \<noteq> ''cluster_id'') ps)\<rparr> # fs)\<rparr>) m
           = Returned m"
    by (simp add: zoomCluster_def first_feature_def cluster_id_of_def map_of_without_key)
  show ?thesis by (simp add: a b)
qed

text \<open>
  The cluster ids 0 and the empty string.
\<close>

theorem zoomCluster_falsy_cluster_id_witness:
  "zoomCluster
     \<lparr>features = Some [\<lparr>properties = Some [(''cluster_id'', JNum 0)], geometry = (10, 50)\<rparr>]\<rparr>
     new_map = Returned new_map \<and>
   zoomCluster
     \<lparr>features = Some [\<lparr>properties = Some [(''cluster_id'', JStr '''')], geometry = (10, 50)\<rparr>]\<rparr>
     new_map = Returned new_map"
  using zoomCluster_falsy_cluster_id
      [of "\<lparr>features = Some [\<lparr>properties = Some [(''cluster_id'', JNum 0)], geometry = (10, 50)\<rparr>]\<rparr>"
          "\<lparr>properties = Some [(''cluster_id'', JNum 0)], geometry = (10, 50)\<rparr>" "[]"
          "[(''cluster_id'', JNum 0)]" "JNum 0" new_map]
    zoomCluster_falsy_cluster_id
      [of "\<lparr>features = Some [\<lparr>properties = Some [(''cluster_id'', JStr '''')], geometry = (10, 50)\<rparr>]\<rparr>"
          "\<lparr>properties = Some [(''cluster_id'', JStr '''')], geometry = (10, 50)\<rparr>" "[]"
          "[(''cluster_id'', JStr '''')]" "JStr ''''" new_map]
  by simp

text \<open>A click on a cluster, on a map that has the source, asks for the expansion zoom.\<close>

lemma zoomCluster_truthy_cluster_id:
  "getSource m ''clustered-users'' = Some src \<Longrightarrow>
   zoomCluster \<lparr>features = Some [example_cluster]\<rparr> m =
     Returned (m\<lparr>calls := calls m @ [GetClusterExpansionZoom (JNum 5)]\<rparr>)"
  by (simp add: zoomCluster_def first_feature_def cluster_id_of_def example_cluster_def
      getClusterExpansionZoom_def)


text \<open>
  C4 at the input where it fails. When the expansion-zoom query answers with an error and
  no zoom, the callback of \<open>zoomCluster\<close> still calls \<open>flyTo\<close>, with the clicked
  cluster's coordinates and \<open>zoom: undefined\<close>: a camera move is asked for. The second
  part follows one click on a cluster of an installed map from the query to that call.
\<close>

theorem zoomCluster_answered_error_moves_camera:
  "camera_moves (calls (zoomCluster_answered cluster (Some e) None m)) =
     camera_moves (calls m) @ [FlyTo (geometry cluster) None] \<and>
   zoomCluster \<lparr>features = Some [example_cluster]\<rparr> example_map =
     Returned (example_map\<lparr>calls := calls example_map @ [GetClusterExpansionZoom (JNum 5)]\<rparr>) \<and>
   camera_moves (calls example_map) = [] \<and>
   camera_moves (calls
     (zoomCluster_answered example_cluster (Some (Error ''query failed'')) None
       (state_of (zoomCluster \<lparr>features = Some [example_cluster]\<rparr> example_map)))) =
   [FlyTo (10, 50) None]"
proof -
  have a: "camera_moves (calls (zoomCluster_answered cluster (Some e) None m)) =
      camera_moves (calls m) @ [FlyTo (geometry cluster) None]"
    by (simp add: zoomCluster_answered_def flyTo_def camera_moves_def)
  have src: "getSource example_map ''clustered-users'' = Some example_cfg"
    by (simp add: example_map_def addClusteredUsersToMap_def install_def addSource_def
        new_map_def addPinImages_def hasImage_def loadImage_def addLayer_def bind_def on_def
        getSource_def clusterLayer_def clusterCountLayer_def unclusteredPointLayer_def)
  have b: "zoomCluster \<lparr>features = Some [example_cluster]\<rparr> example_map =
      Returned (example_map\<lparr>calls := calls example_map @ [GetClusterExpansionZoom (JNum 5)]\<rparr>)"
    using src by (rule zoomCluster_truthy_cluster_id)
  have c: "camera_moves (calls example_map) = []"
    by (simp add: example_map_def addClusteredUsersToMap_def install_def addSource_def
        new_map_def addPinImages_def hasImage_def loadImage_def addLayer_def bind_def on_def
        camera_moves_def clusterLayer_def clusterCountLayer_def unclusteredPointLayer_def)
  have d: "camera_moves (calls
      (zoomCluster_answered example_cluster (Some (Error ''query failed'')) None
        (state_of (zoomCluster \<lparr>features = Some [example_cluster]\<rparr> example_map)))) =
      [FlyTo (10, 50) None]"
    unfolding b state_of.simps
    using c by (simp add: zoomCluster_answered_def flyTo_def camera_moves_def example_cluster_def)
  show ?thesis using a b c d by simp
qed

subsection \<open>Installing, removing and filtering\<close>

lemmas engine_defs =
  addSource_def removeSource_def getSource_def addLayer_def removeLayer_def on_def off_def
  hasImage_def loadImage_def addImage_def

lemmas layer_defs = clusterLayer_def clusterCountLayer_def unclusteredPointLayer_def

lemma removals_append: "removals (xs @ ys) = removals xs @ removals ys"
  by (simp add: removals_def)

text \<open>What the parts do to the listeners, whether they throw or not.\<close>

lemma listeners_install: "listeners (state_of (install cfg m)) = listeners m"
  by (simp add: install_def addPinImages_def engine_defs)

lemma listeners_uninstall: "listeners (state_of (uninstall m)) = listeners m"
  by (simp add: uninstall_def engine_defs)

lemma listeners_bind:
  "listeners (bind cb m) =
     listeners m @
     (case cb of Some f \<Rightarrow> [(''click'', ''unclustered-points'', UserClicked f)] | None \<Rightarrow> []) @
     [(''click'', ''clusters'', ZoomCluster)]"
  by (simp add: bind_def engine_defs layer_defs split: option.splits)

lemma listeners_unbind:
  "listeners (unbind cb m) =
     (case cb of
        Some f \<Rightarrow>
          remove1 (''click'', ''clusters'', ZoomCluster)
            (remove1 (''click'', ''unclustered-points'', UserClicked f) (listeners m))
      | None \<Rightarrow> listeners m)"
  by (simp add: unbind_def engine_defs layer_defs split: option.splits)

text \<open>What the parts do to the sources and the layers.\<close>

lemma style_unbind:
  "style_sources (unbind cb m) = style_sources m \<and> style_layers (unbind cb m) = style_layers m"
  by (simp add: unbind_def engine_defs split: option.splits)

lemma style_sources_bind: "style_sources (bind cb m) = style_sources m"
  by (simp add: bind_def engine_defs split: option.splits)

lemma uninstall_installed:
  assumes "style_sources m ''clustered-users'' = Some old"
    and "\<forall>l\<in>set (style_layers m). layer_source l = ''clustered-users'' \<longrightarrow>
           layer_id l \<in> {''clusters'', ''clusters-count'', ''unclustered-points''}"
  shows "\<exists>m2. uninstall m = Returned m2 \<and> style_sources m2 ''clustered-users'' = None"
proof -
  let ?m3 = "removeLayer (layer_id unclusteredPointLayer)
      (removeLayer (layer_id clusterCountLayer) (removeLayer (layer_id clusterLayer) m))"
  have src: "style_sources ?m3 ''clustered-users'' = Some old"
    using assms(1) by (simp add: removeLayer_def)
  have lyr: "\<not> list_ex (\<lambda>l. layer_source l = ''clustered-users'') (style_layers ?m3)"
    using assms(2) by (auto simp: removeLayer_def layer_defs list_ex_iff)
  have "uninstall m = removeSource ''clustered-users'' ?m3"
    by (simp add: uninstall_def)
  also have "\<dots> = Returned (?m3\<lparr>style_sources := (style_sources ?m3)(''clustered-users'' := None),
      calls := calls ?m3 @ [RemoveSource ''clustered-users'']\<rparr>)"
    using src lyr by (simp add: removeSource_def)
  finally show ?thesis by simp
qed

lemma install_absent:
  assumes "style_sources m ''clustered-users'' = None"
  shows "\<exists>m'. install cfg m = Returned m' \<and> style_sources m' ''clustered-users'' = Some cfg"
  using assms by (simp add: install_def addPinImages_def engine_defs)

lemma install_present:
  assumes "style_sources m ''clustered-users'' = Some old"
  shows "install cfg m =
     Thrown (Error ''There is already a source with this ID'')
       (m\<lparr>calls := calls m @ [AddSource ''clustered-users'' cfg]\<rparr>)"
  using assms by (simp add: install_def addSource_def)

text \<open>
  On a map that has the source, and no layer on it besides the module's three, the rebuild
  goes through: the source is removed and the updated entry is installed in its place.
\<close>

lemma reRenderUsersOnMap_installed:
  assumes "getSource m ''clustered-users'' = Some old"
    and "\<forall>l\<in>set (style_layers m). layer_source l = ''clustered-users'' \<longrightarrow>
           layer_id l \<in> {''clusters'', ''clusters-count'', ''unclustered-points''}"
  shows "\<exists>m'. reRenderUsersOnMap cfg m ids cb = (set_filter ids cfg, Returned m') \<and>
           getSource m' ''clustered-users'' = Some (set_filter ids cfg)"
proof -
  have "style_sources (unbind cb m) ''clustered-users'' = Some old"
    using assms(1) by (simp add: style_unbind getSource_def)
  moreover have "\<forall>l\<in>set (style_layers (unbind cb m)). layer_source l = ''clustered-users'' \<longrightarrow>
      layer_id l \<in> {''clusters'', ''clusters-count'', ''unclustered-points''}"
    using assms(2) by (simp add: style_unbind)
  ultimately obtain m2 where m2: "uninstall (unbind cb m) = Returned m2"
      and gone: "style_sources m2 ''clustered-users'' = None"
    using uninstall_installed by blast
  obtain m3 where m3: "install (set_filter ids cfg) m2 = Returned m3"
      and there: "style_sources m3 ''clustered-users'' = Some (set_filter ids cfg)"
    using install_absent [OF gone] by blast
  have "reRenderUsersOnMap cfg m ids cb = (set_filter ids cfg, Returned (bind cb m3))"
    by (simp add: reRenderUsersOnMap_def m2 addClusteredUsersToMap_def m3)
  moreover have "getSource (bind cb m3) ''clustered-users'' = Some (set_filter ids cfg)"
    by (simp add: getSource_def style_sources_bind there)
  ultimately show ?thesis by blast
qed

text \<open>
  On a map without the source \<open>removeSource\<close> throws: the shared entry is left as it was
  and nothing is installed. A second \<open>addClusteredUsersToMap\<close> without a removal in
  between throws as well.
\<close>

lemma reRenderUsersOnMap_without_source:
  assumes "getSource m ''clustered-users'' = None"
  shows "fst (reRenderUsersOnMap cfg m ids cb) = cfg \<and>
         thrown (snd (reRenderUsersOnMap cfg m ids cb)) =
           Some (Error ''There is no source with this ID'') \<and>
         getSource (state_of (snd (reRenderUsersOnMap cfg m ids cb))) ''clustered-users'' = None"
proof -
  let ?m3 = "removeLayer (layer_id unclusteredPointLayer)
      (removeLayer (layer_id clusterCountLayer)
        (removeLayer (layer_id clusterLayer) (unbind cb m)))"
  have "style_sources ?m3 ''clustered-users'' = None"
    using assms by (simp add: removeLayer_def style_unbind getSource_def)
  then have "uninstall (unbind cb m) =
      Thrown (Error ''There is no source with this ID'')
        (?m3\<lparr>calls := calls ?m3 @ [RemoveSource ''clustered-users'']\<rparr>)"
    by (simp add: uninstall_def removeSource_def)
  then show ?thesis
    using assms
    by (simp add: reRenderUsersOnMap_def getSource_def removeLayer_def style_unbind)
qed

lemma addClusteredUsersToMap_twice:
  "thrown (addClusteredUsersToMap cfg' (state_of (addClusteredUsersToMap cfg new_map cb)) cb') =
     Some (Error ''There is already a source with this ID'')"
proof -
  obtain m1 where m1: "install cfg new_map = Returned m1"
      and there: "style_sources m1 ''clustered-users'' = Some cfg"
    using install_absent [of new_map cfg] by (auto simp: new_map_def)
  have "style_sources (bind cb m1) ''clustered-users'' = Some cfg"
    by (simp add: style_sources_bind there)
  then show ?thesis
    by (simp add: addClusteredUsersToMap_def m1 install_present)
qed

text \<open>
  While another layer uses the source, \<open>removeSource\<close> leaves it on the map: the shared
  entry is written, and \<open>addSource\<close> then throws, the old source still installed.
\<close>

lemma reRenderUsersOnMap_foreign_layer:
  assumes "getSource m ''clustered-users'' = Some old"
    and "l \<in> set (style_layers m)" and "layer_source l = ''clustered-users''"
    and "layer_id l \<notin> {''clusters'', ''clusters-count'', ''unclustered-points''}"
  shows "fst (reRenderUsersOnMap cfg m ids cb) = set_filter ids cfg \<and>
         thrown (snd (reRenderUsersOnMap cfg m ids cb)) =
           Some (Error ''There is already a source with this ID'') \<and>
         getSource (state_of (snd (reRenderUsersOnMap cfg m ids cb))) ''clustered-users'' = Some old"
proof -
  let ?m3 = "removeLayer (layer_id unclusteredPointLayer)
      (removeLayer (layer_id clusterCountLayer)
        (removeLayer (layer_id clusterLayer) (unbind cb m)))"
  have src: "style_sources ?m3 ''clustered-users'' = Some old"
    using assms(1) by (simp add: removeLayer_def style_unbind getSource_def)
  have "l \<in> set (style_layers ?m3)"
    using assms(2,4) by (simp add: removeLayer_def style_unbind layer_defs)
  then have used: "list_ex (\<lambda>l. layer_source l = ''clustered-users'') (style_layers ?m3)"
    using assms(3) unfolding list_ex_iff by blast
  have un: "uninstall (unbind cb m) =
      Returned (?m3\<lparr>calls := calls ?m3 @ [RemoveSource ''clustered-users'']\<rparr>)"
    using src used by (simp add: uninstall_def removeSource_def)
  have "style_sources (?m3\<lparr>calls := calls ?m3 @ [RemoveSource ''clustered-users'']\<rparr>)
      ''clustered-users'' = Some old"
    using src by simp
  then show ?thesis
    using assms(1)
    by (simp add: reRenderUsersOnMap_def un addClusteredUsersToMap_def install_present
        getSource_def removeLayer_def style_unbind)
qed

lemma example_map_installed:
  "getSource example_map ''clustered-users'' = Some example_cfg \<and>
   style_layers example_map = [clusterLayer, clusterCountLayer, unclusteredPointLayer]"
  by (simp add: example_map_def addClusteredUsersToMap_def install_def addPinImages_def
      bind_def new_map_def engine_defs layer_defs)

lemma example_map_layers:
  "\<forall>l\<in>set (style_layers example_map). layer_source l = ''clustered-users'' \<longrightarrow>
     layer_id l \<in> {''clusters'', ''clusters-count'', ''unclustered-points''}"
  by (simp add: example_map_installed layer_defs)

lemma empty_literal_holds_never: "\<not> filter_holds (In (Get ''id'') (Literal [])) ps"
  by (simp split: option.splits jsval.splits)

text \<open>
  C1. The map has the source, and no layer on it besides the module's three. After
  \<open>reRenderUsersOnMap\<close> with a list of ids, the call has returned, and the shared source
  entry and the source installed on the map carry the filter
  \<open>["in", ["get", "id"], ["literal", ids]]\<close>, which a feature passes exactly when its
  \<open>id\<close>, the promoted id, is one of the ids. After \<open>reRenderUsersOnMap\<close> with \<open>null\<close>
  they carry no filter, and the installed source keeps every feature.
\<close>

theorem reRenderUsersOnMap_filter:
  assumes "getSource m ''clustered-users'' = Some old"
    and "\<forall>l\<in>set (style_layers m). layer_source l = ''clustered-users'' \<longrightarrow>
           layer_id l \<in> {''clusters'', ''clusters-count'', ''unclustered-points''}"
  shows "source_filter (fst (reRenderUsersOnMap cfg m (Some ids) cb)) =
           Some (In (Get ''id'') (Literal ids)) \<and>
         thrown (snd (reRenderUsersOnMap cfg m (Some ids) cb)) = None \<and>
         getSource (state_of (snd (reRenderUsersOnMap cfg m (Some ids) cb))) ''clustered-users'' =
           Some (cfg\<lparr>source_filter := Some (In (Get ''id'') (Literal ids))\<rparr>) \<and>
         installed_keeps (state_of (snd (reRenderUsersOnMap cfg m (Some ids) cb)))
           ((''id'', JNum i) # ps) = (i \<in> set ids) \<and>
         promoteId (sources_clustered_users URL) = ''id'' \<and>
         promoteId (fst (reRenderUsersOnMap cfg m (Some ids) cb)) = promoteId cfg \<and>
         source_filter (fst (reRenderUsersOnMap cfg m None cb)) = None \<and>
         thrown (snd (reRenderUsersOnMap cfg m None cb)) = None \<and>
         getSource (state_of (snd (reRenderUsersOnMap cfg m None cb))) ''clustered-users'' =
           Some (cfg\<lparr>source_filter := None\<rparr>) \<and>
         installed_keeps (state_of (snd (reRenderUsersOnMap cfg m None cb))) ps"
proof -
  obtain m1 where r1: "reRenderUsersOnMap cfg m (Some ids) cb =
        (set_filter (Some ids) cfg, Returned m1)"
      and s1: "getSource m1 ''clustered-users'' = Some (set_filter (Some ids) cfg)"
    using reRenderUsersOnMap_installed [OF assms] by blast
  obtain m2 where r2: "reRenderUsersOnMap cfg m None cb = (set_filter None cfg, Returned m2)"
      and s2: "getSource m2 ''clustered-users'' = Some (set_filter None cfg)"
    using reRenderUsersOnMap_installed [OF assms] by blast
  show ?thesis
    by (simp add: r1 s1 r2 s2 installed_keeps_def set_filter_def sources_clustered_users_def)
qed

text \<open>
  A map on which \<open>addClusteredUsersToMap\<close> has installed everything, filtered to the ids
  7 and 3, and then not filtered.
\<close>

theorem reRenderUsersOnMap_filter_witness:
  "getSource example_map ''clustered-users'' = Some example_cfg \<and>
   thrown (snd (reRenderUsersOnMap example_cfg example_map (Some [7, 3]) (Some 1))) = None \<and>
   getSource (state_of (snd (reRenderUsersOnMap example_cfg example_map (Some [7, 3]) (Some 1))))
       ''clustered-users'' =
     Some (example_cfg\<lparr>source_filter := Some (In (Get ''id'') (Literal [7, 3]))\<rparr>) \<and>
   installed_keeps
     (state_of (snd (reRenderUsersOnMap example_cfg example_map (Some [7, 3]) (Some 1))))
     [(''id'', JNum 3)] \<and>
   \<not> installed_keeps
     (state_of (snd (reRenderUsersOnMap example_cfg example_map (Some [7, 3]) (Some 1))))
     [(''id'', JNum 5)] \<and>
   getSource (state_of (snd (reRenderUsersOnMap example_cfg example_map None (Some 1))))
       ''clustered-users'' =
     Some (example_cfg\<lparr>source_filter := None\<rparr>)"
proof -
  have h1: "getSource example_map ''clustered-users'' = Some example_cfg"
    by (simp add: example_map_installed)
  note h2 = example_map_layers
  show ?thesis
    using h1
      reRenderUsersOnMap_filter [OF h1 h2, of example_cfg "[7, 3]" "Some 1" 3 "[]"]
      reRenderUsersOnMap_filter [OF h1 h2, of example_cfg "[7, 3]" "Some 1" 5 "[]"]
    by simp
qed

text \<open>
  C9. The map has the source, and no layer on it besides the module's three.
  \<open>reRenderUsersOnMap\<close> with the empty list is not \<open>reRenderUsersOnMap\<close> with \<open>null\<close>:
  with the empty list the source installed on the map carries the membership test over no
  ids, which no feature passes; with \<open>null\<close> it carries no filter and keeps every
  feature. The installed source, like the shared entry, is without a filter only when the
  argument is \<open>null\<close>.
\<close>

theorem reRenderUsersOnMap_empty_is_not_null:
  assumes "getSource m ''clustered-users'' = Some old"
    and "\<forall>l\<in>set (style_layers m). layer_source l = ''clustered-users'' \<longrightarrow>
           layer_id l \<in> {''clusters'', ''clusters-count'', ''unclustered-points''}"
  shows "thrown (snd (reRenderUsersOnMap cfg m (Some []) cb)) = None \<and>
         getSource (state_of (snd (reRenderUsersOnMap cfg m (Some []) cb))) ''clustered-users'' =
           Some (cfg\<lparr>source_filter := Some (In (Get ''id'') (Literal []))\<rparr>) \<and>
         \<not> installed_keeps (state_of (snd (reRenderUsersOnMap cfg m (Some []) cb))) ps \<and>
         thrown (snd (reRenderUsersOnMap cfg m None cb)) = None \<and>
         getSource (state_of (snd (reRenderUsersOnMap cfg m None cb))) ''clustered-users'' =
           Some (cfg\<lparr>source_filter := None\<rparr>) \<and>
         installed_keeps (state_of (snd (reRenderUsersOnMap cfg m None cb))) ps \<and>
         source_filter (fst (reRenderUsersOnMap cfg m (Some []) cb)) =
           Some (In (Get ''id'') (Literal [])) \<and>
         source_filter (fst (reRenderUsersOnMap cfg m None cb)) = None \<and>
         getSource (state_of (snd (reRenderUsersOnMap cfg m (Some []) cb))) ''clustered-users'' \<noteq>
           getSource (state_of (snd (reRenderUsersOnMap cfg m None cb))) ''clustered-users'' \<and>
         (map_option source_filter
            (getSource (state_of (snd (reRenderUsersOnMap cfg m ids cb))) ''clustered-users'') =
          Some None) = (ids = None) \<and>
         (source_filter (fst (reRenderUsersOnMap cfg m ids cb)) = None) = (ids = None)"
proof -
  obtain m1 where r1: "reRenderUsersOnMap cfg m (Some []) cb =
        (set_filter (Some []) cfg, Returned m1)"
      and s1: "getSource m1 ''clustered-users'' = Some (set_filter (Some []) cfg)"
    using reRenderUsersOnMap_installed [OF assms] by blast
  obtain m2 where r2: "reRenderUsersOnMap cfg m None cb = (set_filter None cfg, Returned m2)"
      and s2: "getSource m2 ''clustered-users'' = Some (set_filter None cfg)"
    using reRenderUsersOnMap_installed [OF assms] by blast
  obtain m3 where r3: "reRenderUsersOnMap cfg m ids cb = (set_filter ids cfg, Returned m3)"
      and s3: "getSource m3 ''clustered-users'' = Some (set_filter ids cfg)"
    using reRenderUsersOnMap_installed [OF assms] by blast
  have e: "(source_filter (set_filter ids cfg) = None) = (ids = None)"
    by (simp add: set_filter_def split: option.splits)
  have d: "set_filter (Some []) cfg \<noteq> set_filter None cfg"
  proof
    assume "set_filter (Some []) cfg = set_filter None cfg"
    then have "source_filter (set_filter (Some []) cfg) = source_filter (set_filter None cfg)"
      by simp
    then show False by (simp add: set_filter_def)
  qed
  have a: "thrown (snd (reRenderUsersOnMap cfg m (Some []) cb)) = None \<and>
      getSource (state_of (snd (reRenderUsersOnMap cfg m (Some []) cb))) ''clustered-users'' =
        Some (cfg\<lparr>source_filter := Some (In (Get ''id'') (Literal []))\<rparr>) \<and>
      \<not> installed_keeps (state_of (snd (reRenderUsersOnMap cfg m (Some []) cb))) ps \<and>
      source_filter (fst (reRenderUsersOnMap cfg m (Some []) cb)) =
        Some (In (Get ''id'') (Literal []))"
    using empty_literal_holds_never [of ps]
    by (simp add: r1 s1 installed_keeps_def set_filter_def)
  have b: "thrown (snd (reRenderUsersOnMap cfg m None cb)) = None \<and>
      getSource (state_of (snd (reRenderUsersOnMap cfg m None cb))) ''clustered-users'' =
        Some (cfg\<lparr>source_filter := None\<rparr>) \<and>
      installed_keeps (state_of (snd (reRenderUsersOnMap cfg m None cb))) ps \<and>
      source_filter (fst (reRenderUsersOnMap cfg m None cb)) = None"
    by (simp add: r2 s2 installed_keeps_def set_filter_def)
  have c: "getSource (state_of (snd (reRenderUsersOnMap cfg m (Some []) cb))) ''clustered-users'' \<noteq>
      getSource (state_of (snd (reRenderUsersOnMap cfg m None cb))) ''clustered-users''"
    using d by (simp add: r1 s1 r2 s2)
  have f: "(map_option source_filter
        (getSource (state_of (snd (reRenderUsersOnMap cfg m ids cb))) ''clustered-users'') =
      Some None) = (ids = None) \<and>
      (source_filter (fst (reRenderUsersOnMap cfg m ids cb)) = None) = (ids = None)"
    using e by (simp add: r3 s3)
  show ?thesis using a b c f by blast
qed

text \<open>The installed map, re-rendered with the empty list and with \<open>null\<close>.\<close>

theorem reRenderUsersOnMap_empty_is_not_null_witness:
  "getSource example_map ''clustered-users'' = Some example_cfg \<and>
   getSource (state_of (snd (reRenderUsersOnMap example_cfg example_map (Some []) (Some 1))))
       ''clustered-users'' =
     Some (example_cfg\<lparr>source_filter := Some (In (Get ''id'') (Literal []))\<rparr>) \<and>
   \<not> installed_keeps
     (state_of (snd (reRenderUsersOnMap example_cfg example_map (Some []) (Some 1))))
     [(''id'', JNum 7)] \<and>
   getSource (state_of (snd (reRenderUsersOnMap example_cfg example_map None (Some 1))))
       ''clustered-users'' =
     Some (example_cfg\<lparr>source_filter := None\<rparr>) \<and>
   installed_keeps
     (state_of (snd (reRenderUsersOnMap example_cfg example_map None (Some 1))))
     [(''id'', JNum 7)]"
proof -
  have h1: "getSource example_map ''clustered-users'' = Some example_cfg"
    by (simp add: example_map_installed)
  note h2 = example_map_layers
  show ?thesis
    using h1
      reRenderUsersOnMap_empty_is_not_null
        [OF h1 h2, of example_cfg "Some 1" "[(''id'', JNum 7)]" None]
    by simp
qed

text \<open>A re-render that returns leaves the listeners that taking off and registering leave.\<close>

lemma listeners_reRenderUsersOnMap:
  assumes "thrown (snd (reRenderUsersOnMap cfg m ids cb)) = None"
  shows "listeners (state_of (snd (reRenderUsersOnMap cfg m ids cb))) =
         listeners (bind cb (unbind cb m))"
proof (cases "uninstall (unbind cb m)")
  case (Thrown e m')
  with assms show ?thesis by (simp add: reRenderUsersOnMap_def)
next
  case (Returned m2)
  have l2: "listeners m2 = listeners (unbind cb m)"
    using listeners_uninstall [of "unbind cb m"] by (simp add: Returned)
  show ?thesis
  proof (cases "install (set_filter ids cfg) m2")
    case (Thrown e m')
    with assms Returned show ?thesis
      by (simp add: reRenderUsersOnMap_def addClusteredUsersToMap_def)
  next
    case inst: (Returned m3)
    have "listeners m3 = listeners m2"
      using listeners_install [of "set_filter ids cfg" m2] by (simp add: inst)
    then show ?thesis
      by (simp add: reRenderUsersOnMap_def Returned addClusteredUsersToMap_def inst
          listeners_bind l2)
  qed
qed

lemma fresh_install:
  "\<exists>m1. addClusteredUsersToMap cfg new_map cb = Returned m1 \<and>
     getSource m1 ''clustered-users'' = Some cfg \<and>
     style_layers m1 = [clusterLayer, clusterCountLayer, unclusteredPointLayer] \<and>
     listeners m1 = listeners (bind cb new_map)"
  by (simp add: addClusteredUsersToMap_def install_def addPinImages_def bind_def new_map_def
      engine_defs layer_defs split: option.splits)

text \<open>With a callback, what \<open>bind\<close> registers is what \<open>unbind\<close> takes off.\<close>

lemma bind_unbind_with_callback:
  "mset (listeners (unbind (Some f) (bind (Some f) m))) = mset (listeners m)"
  by (simp add: listeners_unbind listeners_bind)

text \<open>
  C2 at the input where it fails. Without a point-click callback, registering the listeners
  and then taking them off leaves the \<open>zoomCluster\<close> listener on the cluster layer; after
  \<open>addClusteredUsersToMap\<close> on a new map and one \<open>reRenderUsersOnMap\<close>, neither of which
  throws, the map holds two of them.
\<close>

theorem bind_unbind_without_callback:
  "listeners (unbind None (bind None m)) = listeners m @ [(''click'', ''clusters'', ZoomCluster)] \<and>
   thrown (addClusteredUsersToMap cfg new_map None) = None \<and>
   thrown (snd (reRenderUsersOnMap cfg (state_of (addClusteredUsersToMap cfg new_map None)) ids None))
     = None \<and>
   listeners (state_of (snd (reRenderUsersOnMap cfg
       (state_of (addClusteredUsersToMap cfg new_map None)) ids None))) =
     [(''click'', ''clusters'', ZoomCluster), (''click'', ''clusters'', ZoomCluster)]"
proof -
  have a: "listeners (unbind None (bind None m)) =
      listeners m @ [(''click'', ''clusters'', ZoomCluster)]"
    by (simp add: listeners_unbind listeners_bind)
  obtain m1 where m1: "addClusteredUsersToMap cfg new_map None = Returned m1"
      and src: "getSource m1 ''clustered-users'' = Some cfg"
      and lyr: "style_layers m1 = [clusterLayer, clusterCountLayer, unclusteredPointLayer]"
      and lst: "listeners m1 = listeners (bind None new_map)"
    using fresh_install [of cfg None] by blast
  have only: "\<forall>l\<in>set (style_layers m1). layer_source l = ''clustered-users'' \<longrightarrow>
      layer_id l \<in> {''clusters'', ''clusters-count'', ''unclustered-points''}"
    by (simp add: lyr layer_defs)
  obtain m2 where m2: "reRenderUsersOnMap cfg m1 ids None = (set_filter ids cfg, Returned m2)"
    using reRenderUsersOnMap_installed [OF src only] by blast
  have ok: "thrown (snd (reRenderUsersOnMap cfg m1 ids None)) = None"
    by (simp add: m2)
  have "listeners (state_of (snd (reRenderUsersOnMap cfg m1 ids None))) =
      listeners (bind None (unbind None m1))"
    using ok by (rule listeners_reRenderUsersOnMap)
  also have "\<dots> = [(''click'', ''clusters'', ZoomCluster), (''click'', ''clusters'', ZoomCluster)]"
    by (simp add: listeners_bind listeners_unbind lst new_map_def)
  finally show ?thesis
    using a ok by (simp add: m1)
qed

text \<open>What the parts add to the trace of calls, whether they throw or not.\<close>

lemma calls_unbind:
  "calls (unbind cb m) =
     calls m @
     (case cb of
        Some f \<Rightarrow> [Off ''click'' ''unclustered-points'' (UserClicked f),
                   Off ''click'' ''clusters'' ZoomCluster]
      | None \<Rightarrow> [])"
  by (simp add: unbind_def engine_defs layer_defs split: option.splits)

lemma calls_uninstall:
  "calls (state_of (uninstall m)) =
     calls m @ [RemoveLayer ''clusters'', RemoveLayer ''clusters-count'',
                RemoveLayer ''unclustered-points'', RemoveSource ''clustered-users'']"
  by (simp add: uninstall_def engine_defs layer_defs)

lemma calls_bind:
  "calls (bind cb m) =
     calls m @
     (case cb of Some f \<Rightarrow> [On ''click'' ''unclustered-points'' (UserClicked f)] | None \<Rightarrow> []) @
     [On ''click'' ''clusters'' ZoomCluster]"
  by (simp add: bind_def engine_defs layer_defs split: option.splits)

lemma calls_install:
  "\<exists>rest. calls (state_of (install cfg m)) = calls m @ rest \<and> removals rest = []"
proof (cases "style_sources m ''clustered-users''")
  case None
  have "calls (state_of (install cfg m)) =
      calls m @ AddSource ''clustered-users'' cfg #
        (if hasImage m ''user-pin'' then [] else [LoadImage userPin_src]) @
        [AddLayer clusterLayer, AddLayer clusterCountLayer, AddLayer unclusteredPointLayer]"
    using None by (simp add: install_def addPinImages_def engine_defs)
  then show ?thesis by (simp add: removals_def)
next
  case (Some old)
  then show ?thesis by (simp add: install_present removals_def)
qed

lemma calls_addClusteredUsersToMap:
  "\<exists>rest. calls (state_of (addClusteredUsersToMap cfg m cb)) = calls m @ rest \<and> removals rest = []"
proof -
  obtain rest where r: "calls (state_of (install cfg m)) = calls m @ rest" "removals rest = []"
    using calls_install by blast
  show ?thesis
  proof (cases "install cfg m")
    case (Returned m1)
    with r show ?thesis
      by (simp add: addClusteredUsersToMap_def calls_bind removals_def split: option.splits)
  next
    case (Thrown e m')
    with r show ?thesis by (simp add: addClusteredUsersToMap_def)
  qed
qed

lemma removals_reRenderUsersOnMap:
  "removals (trace_since m (state_of (snd (reRenderUsersOnMap cfg m ids cb)))) =
     [RemoveLayer ''clusters'', RemoveLayer ''clusters-count'',
      RemoveLayer ''unclustered-points'', RemoveSource ''clustered-users'']"
proof -
  let ?four = "[RemoveLayer ''clusters'', RemoveLayer ''clusters-count'',
      RemoveLayer ''unclustered-points'', RemoveSource ''clustered-users'']"
  obtain offs where offs: "calls (unbind cb m) = calls m @ offs" "removals offs = []"
    by (cases cb) (simp_all add: calls_unbind removals_def)
  have un: "calls (state_of (uninstall (unbind cb m))) = calls m @ offs @ ?four"
    by (simp add: calls_uninstall offs)
  have "\<exists>rest. calls (state_of (snd (reRenderUsersOnMap cfg m ids cb))) =
      calls m @ offs @ ?four @ rest \<and> removals rest = []"
  proof (cases "uninstall (unbind cb m)")
    case (Thrown e m')
    with un show ?thesis by (simp add: reRenderUsersOnMap_def removals_def)
  next
    case (Returned m2)
    obtain rest where "calls (state_of (addClusteredUsersToMap (set_filter ids cfg) m2 cb)) =
        calls m2 @ rest" "removals rest = []"
      using calls_addClusteredUsersToMap by blast
    with un Returned show ?thesis by (simp add: reRenderUsersOnMap_def)
  qed
  then obtain rest where "calls (state_of (snd (reRenderUsersOnMap cfg m ids cb))) =
      calls m @ offs @ ?four @ rest" "removals rest = []"
    by blast
  then show ?thesis
    using offs(2) by (simp add: trace_since_def removals_append) (simp add: removals_def)
qed

text \<open>
  C3, amended. \<open>reRenderUsersOnMap\<close> removes the three layers in the order they were
  installed in, cluster layer, cluster count layer, unclustered point layer, and removes the
  source after them: the source is never removed before one of its layers.
\<close>

theorem reRenderUsersOnMap_removal_order:
  "removals (trace_since m (state_of (snd (reRenderUsersOnMap cfg m ids cb)))) =
     [RemoveLayer ''clusters'', RemoveLayer ''clusters-count'',
      RemoveLayer ''unclustered-points'', RemoveSource ''clustered-users''] \<and>
   [layer_id clusterLayer, layer_id clusterCountLayer, layer_id unclusteredPointLayer] =
     [''clusters'', ''clusters-count'', ''unclustered-points'']"
  by (simp add: removals_reRenderUsersOnMap layer_defs)

text \<open>
  C3, as stated, fails: the layers are not removed in the reverse of the installation order.
\<close>

theorem reRenderUsersOnMap_not_reverse_order:
  "removals (trace_since example_map
     (state_of (snd (reRenderUsersOnMap example_cfg example_map (Some [7, 3]) (Some 1))))) \<noteq>
   [RemoveLayer ''unclustered-points'', RemoveLayer ''clusters-count'',
    RemoveLayer ''clusters'', RemoveSource ''clustered-users'']"
  by (simp add: removals_reRenderUsersOnMap)

end
